theory Spec2Isabelle
  imports Complex_Main
begin

section \<open>Moves and the bot's selection tiers\<close>

text \<open>
  A verbose move as the rules engine returns it from \<^verbatim>\<open>game.moves({ verbose: true })\<close>:
  origin and destination square, the flag string and the algebraic notation.
  \<^verbatim>\<open>flags.includes('c')\<close> asks whether the character occurs in the flag string.
\<close>

type_synonym square = string

record verbose_move =
  from_square :: square
  to_square :: square
  flags :: string
  san :: string

text \<open>The accumulator object \<^verbatim>\<open>{ move: current, score }\<close> of the two scoring folds.\<close>

record scored =
  move :: verbose_move
  score :: int

text \<open>
  \<^verbatim>\<open>Math.floor(Math.random() * moves.length)\<close>: the draw \<open>u\<close> of \<^verbatim>\<open>Math.random()\<close>
  is a parameter of the model.
\<close>

definition randomIndex :: "rat \<Rightarrow> nat \<Rightarrow> nat" where
  "randomIndex u n = nat \<lfloor>u * of_nat n\<rfloor>"

text \<open>
  The body of \<^verbatim>\<open>makeBotMove\<close> up to the choice of the move: the guard
  \<^verbatim>\<open>moves.length > 0\<close> and the \<^verbatim>\<open>switch (botDifficulty)\<close>. \<^verbatim>\<open>reduce\<close> with an
  initial value is a left fold over the whole list.
\<close>

definition botMove :: "nat \<Rightarrow> verbose_move list \<Rightarrow> rat \<Rightarrow> verbose_move option" where
  "botMove botDifficulty moves u =
     (if length moves > 0 then
        Some
         (if botDifficulty = 1 then moves ! randomIndex u (length moves)
          else if botDifficulty = 2 then
            foldl (\<lambda>best current.
                     if CHR ''c'' \<in> set (flags current) \<or> CHR ''e'' \<in> set (flags current)
                     then current else best)
                  (moves ! randomIndex u (length moves)) moves
          else if botDifficulty = 3 then
            move
             (foldl (\<lambda>best current.
                       let score = (if CHR ''c'' \<in> set (flags current) \<or> CHR ''e'' \<in> set (flags current)
                                    then 2
                                    else if CHR ''p'' \<in> set (flags current) \<or> CHR ''k'' \<in> set (flags current)
                                    then 1 else 0)
                       in if score > scored.score best then \<lparr>move = current, score = score\<rparr> else best)
                    \<lparr>move = moves ! 0, score = - 1\<rparr> moves)
          else moves ! randomIndex u (length moves))
      else None)"

text \<open>
  The choice made inside \<^verbatim>\<open>suggestMove\<close>: \<open>None\<close> stands for the guard
  \<^verbatim>\<open>moves.length > 0\<close> failing, in which case \<^verbatim>\<open>setSuggestedMove\<close> is not called.
\<close>

definition suggestion :: "verbose_move list \<Rightarrow> verbose_move option" where
  "suggestion moves =
     (if length moves > 0 then
        Some
         (move
           (foldl (\<lambda>best current.
                     let score = (if CHR ''c'' \<in> set (flags current) \<or> CHR ''e'' \<in> set (flags current)
                                  then 2
                                  else if CHR ''p'' \<in> set (flags current) \<or> CHR ''k'' \<in> set (flags current)
                                  then 1 else 0)
                     in if score > scored.score best then \<lparr>move = current, score = score\<rparr> else best)
                  \<lparr>move = moves ! 0, score = - 1\<rparr> moves))
      else None)"

text \<open>
  The vocabulary of the specification, used to state the properties: a move is a capture
  when its flags hold \<open>c\<close> or \<open>e\<close>, and its points are 2, 1 or 0.
\<close>

definition isCapture :: "verbose_move \<Rightarrow> bool" where
  "isCapture m = (CHR ''c'' \<in> set (flags m) \<or> CHR ''e'' \<in> set (flags m))"

definition points :: "verbose_move \<Rightarrow> int" where
  "points m =
     (if CHR ''c'' \<in> set (flags m) \<or> CHR ''e'' \<in> set (flags m) then 2
      else if CHR ''p'' \<in> set (flags m) \<or> CHR ''k'' \<in> set (flags m) then 1 else 0)"

text \<open>The two folds, named, for the proofs.\<close>

definition captureStep :: "verbose_move \<Rightarrow> verbose_move \<Rightarrow> verbose_move" where
  "captureStep best current = (if isCapture current then current else best)"

definition scoreStep :: "scored \<Rightarrow> verbose_move \<Rightarrow> scored" where
  "scoreStep best current =
     (if points current > score best then \<lparr>move = current, score = points current\<rparr> else best)"

text \<open>Sample moves.\<close>

definition mv :: "string \<Rightarrow> string \<Rightarrow> string \<Rightarrow> string \<Rightarrow> verbose_move" where
  "mv f t fl s = \<lparr>from_square = f, to_square = t, flags = fl, san = s\<rparr>"

definition sampleMoves :: "verbose_move list" where
  "sampleMoves =
     [mv ''g1'' ''f3'' ''n'' ''Nf3'',
      mv ''e1'' ''g1'' ''k'' ''O-O'',
      mv ''e4'' ''d5'' ''c'' ''exd5'',
      mv ''c3'' ''d5'' ''c'' ''Nxd5'',
      mv ''a2'' ''a4'' ''b'' ''a4'']"

section \<open>The rules engine\<close>

text \<open>
  Legality, move application and the board belong to the rules engine (the library
  \<^verbatim>\<open>chess.js\<close>), which is not part of the repository: they are parameters of the model,
  over an arbitrary type \<open>'p\<close> of positions (what \<^verbatim>\<open>game.fen()\<close> serialises).
\<close>

datatype color = White | Black

datatype piece_type = Pawn | Knight | Bishop | Rook | Queen | King

record piece =
  color :: color
  ptype :: piece_type

text \<open>
  The three ways \<^verbatim>\<open>game.move({ from, to, promotion: 'q' })\<close> can end: it throws, it
  returns a falsy value, or it applies a legal move and returns it.
\<close>

datatype move_result = Throws | Falsy | Made verbose_move

record 'p engine =
  initial :: 'p
  moves_of :: "'p \<Rightarrow> verbose_move list"
  resolve :: "'p \<Rightarrow> square \<Rightarrow> square \<Rightarrow> move_result"
  after :: "'p \<Rightarrow> verbose_move \<Rightarrow> 'p"
  board_of :: "'p \<Rightarrow> piece option list list"
  get :: "'p \<Rightarrow> square \<Rightarrow> piece option"
  turn :: "'p \<Rightarrow> color"

text \<open>
  A \<^verbatim>\<open>Chess\<close> instance: the current position and the stack of applied moves that
  \<^verbatim>\<open>undo\<close> pops (each with the position it was applied to, most recent first). An
  instance built from a position string starts with an empty stack, since the string
  records no moves.
\<close>

record 'p chess =
  position :: 'p
  applied :: "('p \<times> verbose_move) list"

definition Chess :: "'p \<Rightarrow> 'p chess" where
  "Chess p = \<lparr>position = p, applied = []\<rparr>"

definition fen :: "'p chess \<Rightarrow> 'p" where
  "fen g = position g"

definition chess_play :: "'p engine \<Rightarrow> 'p chess \<Rightarrow> verbose_move \<Rightarrow> 'p chess" where
  "chess_play E g m =
     \<lparr>position = after E (position g) m, applied = (position g, m) # applied g\<rparr>"

definition chess_move ::
  "'p engine \<Rightarrow> 'p chess \<Rightarrow> square \<Rightarrow> square \<Rightarrow> move_result \<times> 'p chess" where
  "chess_move E g fromSq toSq =
     (case resolve E (position g) fromSq toSq of
        Made m \<Rightarrow> (Made m, chess_play E g m)
      | r \<Rightarrow> (r, g))"

definition chess_undo :: "'p chess \<Rightarrow> verbose_move option \<times> 'p chess" where
  "chess_undo g =
     (case applied g of
        [] \<Rightarrow> (None, g)
      | (p, m) # rest \<Rightarrow> (Some m, \<lparr>position = p, applied = rest\<rparr>))"

section \<open>JavaScript numbers and strings\<close>

text \<open>
  The numbers of the probability computation. Finite values are exact rationals (the
  rounding of double precision is not modelled); what matters here is that \<open>0 / 0\<close>
  is \<open>NaN\<close> and that \<open>NaN\<close> goes through every later operation.
\<close>

datatype jsnum = NaN | PosInfinity | NegInfinity | Num rat

definition js_div :: "int \<Rightarrow> int \<Rightarrow> jsnum" where
  "js_div a b =
     (if b = 0 then (if a = 0 then NaN else if a > 0 then PosInfinity else NegInfinity)
      else Num (of_int a / of_int b))"

fun js_times100 :: "jsnum \<Rightarrow> jsnum" where
  "js_times100 (Num x) = Num (x * 100)"
| "js_times100 x = x"

fun Math_round :: "jsnum \<Rightarrow> jsnum" where
  "Math_round (Num x) = Num (of_int \<lfloor>x + 1 / 2\<rfloor>)"
| "Math_round x = x"

fun js_100minus :: "jsnum \<Rightarrow> jsnum" where
  "js_100minus (Num x) = Num (100 - x)"
| "js_100minus NaN = NaN"
| "js_100minus PosInfinity = NegInfinity"
| "js_100minus NegInfinity = PosInfinity"

text \<open>A natural number inside a template string: its decimal digits.\<close>

definition digit :: "nat \<Rightarrow> char" where
  "digit d = ''0123456789'' ! d"

function decimal :: "nat \<Rightarrow> string" where
  "decimal n = (if n < 10 then [digit n] else decimal (n div 10) @ [digit (n mod 10)])"
  by pat_completeness auto
termination
  by (relation "measure id") auto

declare decimal.simps [simp del]

section \<open>The component's state and handlers\<close>

record probability =
  white :: jsnum
  black :: jsnum

text \<open>
  The ten state variables of \<^verbatim>\<open>ChessGame\<close>, and the pending \<^verbatim>\<open>setTimeout\<close>
  callbacks. A callback \<^verbatim>\<open>() => makeBotMove()\<close> closes over the \<^verbatim>\<open>game\<close> instance
  and the \<^verbatim>\<open>botDifficulty\<close> of the render that scheduled it.
\<close>

record 'p state =
  game :: "'p chess"
  selectedSquare :: "square option"
  suggestedMove :: "verbose_move option"
  botDifficulty :: nat
  errorMessage :: string
  winProbability :: probability
  pointDifference :: int
  darkMode :: bool
  moveHistory :: "string list"
  gameStatus :: string
  timers :: "('p chess \<times> nat) list"

definition initialState :: "'p engine \<Rightarrow> 'p state" where
  "initialState E =
     \<lparr>game = Chess (initial E), selectedSquare = None, suggestedMove = None,
      botDifficulty = 0, errorMessage = [],
      winProbability = \<lparr>white = Num 50, black = Num 50\<rparr>, pointDifference = 0,
      darkMode = False, moveHistory = [], gameStatus = [], timers = []\<rparr>"

text \<open>
  The updater passed to \<^verbatim>\<open>setMoveHistory\<close> in \<^verbatim>\<open>updateMoveHistory\<close>. On an empty
  history \<^verbatim>\<open>prevHistory[prevHistory.length - 1]\<close> is \<^verbatim>\<open>undefined\<close>, which the template
  string prints, and \<^verbatim>\<open>slice(0, -1)\<close> is empty.
\<close>

definition updateMoveHistory :: "verbose_move \<Rightarrow> string \<Rightarrow> string list \<Rightarrow> string list" where
  "updateMoveHistory m player prevHistory =
     (let moveNumber = length prevHistory div 2 + 1 in
      if player = ''player'' then prevHistory @ [decimal moveNumber @ ''. '' @ san m]
      else
        let lastMove = (if prevHistory = [] then ''undefined'' else last prevHistory)
        in butlast prevHistory @ [lastMove @ '' '' @ san m])"

text \<open>
  \<^verbatim>\<open>makeMove\<close>: the \<^verbatim>\<open>else\<close> branch and the \<^verbatim>\<open>catch\<close> block are the last two cases.
  The instance is changed in place by \<^verbatim>\<open>game.move\<close>; on success the state gets a new
  instance built from its position string, and the timer keeps the old one.
\<close>

definition makeMove :: "'p engine \<Rightarrow> square \<Rightarrow> square \<Rightarrow> 'p state \<Rightarrow> 'p state" where
  "makeMove E fromSq toSq s =
     (case chess_move E (game s) fromSq toSq of
        (Made m, g) \<Rightarrow>
          s\<lparr>game := Chess (fen g), selectedSquare := None, errorMessage := [],
            moveHistory := updateMoveHistory m ''player'' (moveHistory s),
            timers := timers s @ [(g, botDifficulty s)]\<rparr>
      | (Falsy, g) \<Rightarrow> s\<lparr>game := g, errorMessage := ''Invalid move'', selectedSquare := None\<rparr>
      | (Throws, g) \<Rightarrow> s\<lparr>game := g, errorMessage := ''Invalid move'', selectedSquare := None\<rparr>)"

text \<open>A string is truthy when it is not empty; \<^verbatim>\<open>null\<close> is falsy.\<close>

definition truthy :: "string option \<Rightarrow> bool" where
  "truthy x = (case x of None \<Rightarrow> False | Some str \<Rightarrow> str \<noteq> [])"

definition handleSquareClick :: "'p engine \<Rightarrow> square \<Rightarrow> 'p state \<Rightarrow> 'p state" where
  "handleSquareClick E sq s =
     (let pc = get E (position (game s)) sq in
      if selectedSquare s = Some sq then s\<lparr>selectedSquare := None\<rparr>
      else if truthy (selectedSquare s) then makeMove E (the (selectedSquare s)) sq s
      else if (case pc of None \<Rightarrow> False | Some q \<Rightarrow> color q = turn E (position (game s)))
        then s\<lparr>selectedSquare := Some sq\<rparr>
      else s\<lparr>errorMessage := ''Select a valid piece''\<rparr>)"

text \<open>
  \<^verbatim>\<open>makeBotMove\<close> as run by a timer: \<open>g\<close> and \<open>d\<close> are the instance and the difficulty
  its closure holds, \<open>u\<close> the random draw.
\<close>

definition makeBotMove :: "'p engine \<Rightarrow> rat \<Rightarrow> 'p chess \<Rightarrow> nat \<Rightarrow> 'p state \<Rightarrow> 'p state" where
  "makeBotMove E u g d s =
     (case botMove d (moves_of E (position g)) u of
        None \<Rightarrow> s
      | Some m \<Rightarrow>
          s\<lparr>game := Chess (fen (chess_play E g m)),
            moveHistory := updateMoveHistory m ''bot'' (moveHistory s)\<rparr>)"

definition fireTimer :: "'p engine \<Rightarrow> rat \<Rightarrow> 'p state \<Rightarrow> 'p state" where
  "fireTimer E u s =
     (case timers s of
        [] \<Rightarrow> s
      | (g, d) # rest \<Rightarrow> makeBotMove E u g d (s\<lparr>timers := rest\<rparr>))"

definition suggestMove :: "'p engine \<Rightarrow> 'p state \<Rightarrow> 'p state" where
  "suggestMove E s =
     (case suggestion (moves_of E (position (game s))) of
        None \<Rightarrow> s
      | Some m \<Rightarrow> s\<lparr>suggestedMove := Some m\<rparr>)"

text \<open>The table \<^verbatim>\<open>pieceValues\<close> and the two nested \<^verbatim>\<open>forEach\<close> loops over the board.\<close>

fun pieceValues :: "piece_type \<Rightarrow> int" where
  "pieceValues Pawn = 1"
| "pieceValues Knight = 3"
| "pieceValues Bishop = 3"
| "pieceValues Rook = 5"
| "pieceValues Queen = 9"
| "pieceValues King = 0"

definition countPiece :: "int \<times> int \<Rightarrow> piece option \<Rightarrow> int \<times> int" where
  "countPiece acc pc =
     (case pc of
        None \<Rightarrow> acc
      | Some q \<Rightarrow>
          (if color q = White then (fst acc + pieceValues (ptype q), snd acc)
           else (fst acc, snd acc + pieceValues (ptype q))))"

definition boardScores :: "piece option list list \<Rightarrow> int \<times> int" where
  "boardScores rows = foldl (\<lambda>acc row. foldl countPiece acc row) (0, 0) rows"

definition calculateWinProbability :: "'p engine \<Rightarrow> 'p state \<Rightarrow> 'p state" where
  "calculateWinProbability E s =
     (let (whiteScore, blackScore) = boardScores (board_of E (position (game s)));
          totalScore = whiteScore + blackScore;
          whiteProbability = Math_round (js_times100 (js_div whiteScore totalScore))
      in s\<lparr>winProbability := \<lparr>white = whiteProbability, black = js_100minus whiteProbability\<rparr>,
           pointDifference := whiteScore - blackScore\<rparr>)"

definition resetGame :: "'p engine \<Rightarrow> 'p state \<Rightarrow> 'p state" where
  "resetGame E s =
     s\<lparr>game := Chess (initial E), selectedSquare := None, moveHistory := [],
       gameStatus := [], errorMessage := []\<rparr>"

text \<open>
  \<^verbatim>\<open>undoMove\<close>: the first \<^verbatim>\<open>game.undo()\<close> decides, the second one's result is
  dropped.
\<close>

definition undoMove :: "'p state \<Rightarrow> 'p state" where
  "undoMove s =
     (case chess_undo (game s) of
        (None, g) \<Rightarrow> s\<lparr>game := g\<rparr>
      | (Some undoneMove, g) \<Rightarrow>
          s\<lparr>game := Chess (fen (snd (chess_undo g))),
            moveHistory := butlast (moveHistory s)\<rparr>)"

section \<open>Reachable states\<close>

text \<open>
  The remaining handlers, and the states the component can be in: it starts in
  \<open>initialState\<close>, and every event (a click on a square or a button, a timer, the
  effect that runs after a change of \<^verbatim>\<open>game\<close>) is one of the steps below.
  \<^verbatim>\<open>checkGameStatus\<close> only writes a message into \<^verbatim>\<open>gameStatus\<close>; any text stands for it.
\<close>

definition setBotDifficulty :: "nat \<Rightarrow> 'p state \<Rightarrow> 'p state" where
  "setBotDifficulty i s = s\<lparr>botDifficulty := i\<rparr>"

definition toggleDarkMode :: "'p state \<Rightarrow> 'p state" where
  "toggleDarkMode s = s\<lparr>darkMode := \<not> darkMode s\<rparr>"

inductive reachable :: "'p engine \<Rightarrow> 'p state \<Rightarrow> bool" for E :: "'p engine" where
  start: "reachable E (initialState E)"
| click: "reachable E s \<Longrightarrow> reachable E (handleSquareClick E sq s)"
| timer: "reachable E s \<Longrightarrow> reachable E (fireTimer E u s)"
| reset: "reachable E s \<Longrightarrow> reachable E (resetGame E s)"
| undo: "reachable E s \<Longrightarrow> reachable E (undoMove s)"
| hint: "reachable E s \<Longrightarrow> reachable E (suggestMove E s)"
| bar: "reachable E s \<Longrightarrow> reachable E (calculateWinProbability E s)"
| status: "reachable E s \<Longrightarrow> reachable E (s\<lparr>gameStatus := msg\<rparr>)"
| level: "reachable E s \<Longrightarrow> reachable E (setBotDifficulty i s)"
| dark: "reachable E s \<Longrightarrow> reachable E (toggleDarkMode s)"

code_pred reachable .

section \<open>A small engine for concrete runs\<close>

text \<open>
  An instance of the engine's interface, small enough to evaluate: a position is the list
  of moves played from a given board, the legal moves come from a table indexed by the
  notation of the moves played, and a move that is not in the table makes
  \<^verbatim>\<open>game.move\<close> throw. The board is rank 8 first, as \<^verbatim>\<open>game.board()\<close> returns it.
\<close>

type_synonym board = "piece option list list"

definition pc :: "color \<Rightarrow> piece_type \<Rightarrow> piece option" where
  "pc c t = Some \<lparr>color = c, ptype = t\<rparr>"

definition backRank :: "piece_type list" where
  "backRank = [Rook, Knight, Bishop, Queen, King, Bishop, Knight, Rook]"

definition emptyRow :: "piece option list" where
  "emptyRow = replicate 8 None"

definition startBoard :: board where
  "startBoard =
     [map (pc Black) backRank, replicate 8 (pc Black Pawn),
      emptyRow, emptyRow, emptyRow, emptyRow,
      replicate 8 (pc White Pawn), map (pc White) backRank]"

definition kingsBoard :: board where
  "kingsBoard =
     [emptyRow[4 := pc Black King],
      emptyRow, emptyRow, emptyRow, emptyRow, emptyRow, emptyRow,
      emptyRow[4 := pc White King]]"

fun indexOf :: "char \<Rightarrow> string \<Rightarrow> nat" where
  "indexOf c [] = 0"
| "indexOf c (x # xs) = (if x = c then 0 else Suc (indexOf c xs))"

definition squareAt :: "board \<Rightarrow> square \<Rightarrow> piece option" where
  "squareAt b sq =
     (case sq of
        [f, r] \<Rightarrow> b ! indexOf r ''87654321'' ! indexOf f ''abcdefgh''
      | _ \<Rightarrow> None)"

definition putAt :: "board \<Rightarrow> square \<Rightarrow> piece option \<Rightarrow> board" where
  "putAt b sq x =
     (case sq of
        [f, r] \<Rightarrow>
          b[indexOf r ''87654321'' := (b ! indexOf r ''87654321'')[indexOf f ''abcdefgh'' := x]]
      | _ \<Rightarrow> b)"

definition movePiece :: "board \<Rightarrow> verbose_move \<Rightarrow> board" where
  "movePiece b m = putAt (putAt b (from_square m) None) (to_square m) (squareAt b (from_square m))"

definition lookupMove :: "verbose_move list \<Rightarrow> square \<Rightarrow> square \<Rightarrow> move_result" where
  "lookupMove ms fromSq toSq =
     (case find (\<lambda>m. from_square m = fromSq \<and> to_square m = toSq) ms of
        None \<Rightarrow> Throws
      | Some m \<Rightarrow> Made m)"

definition tableEngine ::
  "board \<Rightarrow> (string list \<Rightarrow> verbose_move list) \<Rightarrow> verbose_move list engine" where
  "tableEngine b0 table =
     \<lparr>initial = [],
      moves_of = (\<lambda>p. table (map san p)),
      resolve = (\<lambda>p. lookupMove (table (map san p))),
      after = (\<lambda>p m. p @ [m]),
      board_of = (\<lambda>p. foldl movePiece b0 p),
      get = (\<lambda>p. squareAt (foldl movePiece b0 p)),
      turn = (\<lambda>p. if even (length p) then White else Black)\<rparr>"

text \<open>
  A few first plies of a game: the lines \<open>1. e4 d5\<close>, with the capture \<open>exd5\<close> to
  follow, and \<open>1. f3 e5 2. g4 Qh4#\<close>, which ends in mate.
\<close>

definition openingTable :: "string list \<Rightarrow> verbose_move list" where
  "openingTable played =
     (if played = [] then
        [mv ''e2'' ''e4'' ''b'' ''e4'', mv ''f2'' ''f3'' ''n'' ''f3'']
      else if played = [''e4''] then
        [mv ''e7'' ''e5'' ''b'' ''e5'', mv ''c7'' ''c5'' ''b'' ''c5'', mv ''d7'' ''d5'' ''b'' ''d5'']
      else if played = [''e4'', ''d5''] then
        [mv ''b1'' ''c3'' ''n'' ''Nc3'', mv ''e4'' ''d5'' ''c'' ''exd5'', mv ''e4'' ''e5'' ''n'' ''e5'']
      else if played = [''f3''] then
        [mv ''e7'' ''e5'' ''b'' ''e5'', mv ''d7'' ''d5'' ''b'' ''d5'']
      else if played = [''f3'', ''e5''] then
        [mv ''g2'' ''g4'' ''b'' ''g4'', mv ''e2'' ''e4'' ''b'' ''e4'']
      else if played = [''f3'', ''e5'', ''g4''] then
        [mv ''d8'' ''h4'' ''n'' ''Qh4#'', mv ''d7'' ''d5'' ''b'' ''d5'']
      else [])"

definition openingBook :: "verbose_move list engine" where
  "openingBook = tableEngine startBoard openingTable"

text \<open>Two bare kings on their home squares.\<close>

definition kingsTable :: "string list \<Rightarrow> verbose_move list" where
  "kingsTable played =
     (if played = [] then [mv ''e1'' ''d1'' ''n'' ''Kd1'', mv ''e1'' ''e2'' ''n'' ''Ke2'']
      else [])"

definition bareKings :: "verbose_move list engine" where
  "bareKings = tableEngine kingsBoard kingsTable"

text \<open>
  Two runs of the component on the opening book. In the first the human plays \<open>e2\<close> to
  \<open>e4\<close> by two clicks and the bot replies \<open>e5\<close>. In the second the game goes
  \<open>1. f3 e5 2. g4 Qh4#\<close>; \<^verbatim>\<open>suggestMove\<close> runs after every change of \<^verbatim>\<open>game\<close>, as
  the effect does (its other calls do not write \<^verbatim>\<open>suggestedMove\<close>).
\<close>

definition replyRun :: "verbose_move list state" where
  "replyRun =
     fireTimer openingBook 0
       (handleSquareClick openingBook ''e4''
         (handleSquareClick openingBook ''e2'' (initialState openingBook)))"

definition mateRun :: "verbose_move list state" where
  "mateRun =
     fireTimer openingBook 0
       (suggestMove openingBook
         (makeMove openingBook ''g2'' ''g4''
           (suggestMove openingBook
             (fireTimer openingBook 0
               (suggestMove openingBook
                 (makeMove openingBook ''f2'' ''f3''
                   (suggestMove openingBook (initialState openingBook))))))))"

text \<open>The history after a list of full turns, each a human move and the bot's reply.\<close>

definition playTurns :: "(verbose_move \<times> verbose_move) list \<Rightarrow> string list" where
  "playTurns ts =
     foldl (\<lambda>h (a, b). updateMoveHistory b ''bot'' (updateMoveHistory a ''player'' h)) [] ts"

section \<open>The two folds\<close>

lemma botMove_advanced:
  "moves \<noteq> [] \<Longrightarrow>
   botMove 2 moves u = Some (foldl captureStep (moves ! randomIndex u (length moves)) moves)"
  unfolding botMove_def captureStep_def [abs_def] isCapture_def by simp

lemma botMove_grandMaster:
  "moves \<noteq> [] \<Longrightarrow>
   botMove 3 moves u = Some (move (foldl scoreStep \<lparr>move = moves ! 0, score = - 1\<rparr> moves))"
  unfolding botMove_def scoreStep_def [abs_def] points_def by (simp add: Let_def)

lemma suggestion_fold:
  "moves \<noteq> [] \<Longrightarrow>
   suggestion moves = Some (move (foldl scoreStep \<lparr>move = moves ! 0, score = - 1\<rparr> moves))"
  unfolding suggestion_def scoreStep_def [abs_def] points_def by (simp add: Let_def)

lemma points_nonneg: "0 \<le> points m"
  by (simp add: points_def)

text \<open>
  The scoring fold ends on the first move of highest points, whatever move seeds it:
  every move has at least 0 points, so the first one already beats the sentinel.
\<close>

lemma scoreFold_first_best:
  "ms \<noteq> [] \<Longrightarrow>
   \<exists>i<length ms.
      foldl scoreStep \<lparr>move = m0, score = - 1\<rparr> ms = \<lparr>move = ms ! i, score = points (ms ! i)\<rparr> \<and>
      (\<forall>j<length ms. points (ms ! j) \<le> points (ms ! i)) \<and>
      (\<forall>j<i. points (ms ! j) < points (ms ! i))"
proof (induction ms rule: rev_induct)
  case Nil
  then show ?case by simp
next
  case (snoc x xs)
  show ?case
  proof (cases "xs = []")
    case True
    have "- 1 < points x" using points_nonneg [of x] by linarith
    then have "foldl scoreStep \<lparr>move = m0, score = - 1\<rparr> [x] = \<lparr>move = x, score = points x\<rparr>"
      by (simp add: scoreStep_def)
    with True show ?thesis by simp
  next
    case False
    from snoc.IH [OF False] obtain i where i: "i < length xs"
      and r: "foldl scoreStep \<lparr>move = m0, score = - 1\<rparr> xs = \<lparr>move = xs ! i, score = points (xs ! i)\<rparr>"
      and mx: "\<forall>j<length xs. points (xs ! j) \<le> points (xs ! i)"
      and fs: "\<forall>j<i. points (xs ! j) < points (xs ! i)"
      by blast
    show ?thesis
    proof (cases "points x > points (xs ! i)")
      case True
      have res: "foldl scoreStep \<lparr>move = m0, score = - 1\<rparr> (xs @ [x]) = \<lparr>move = x, score = points x\<rparr>"
        using True r by (simp add: scoreStep_def)
      have lt: "\<forall>j<length xs. points (xs ! j) < points x"
        using mx True by force
      have "length xs < length (xs @ [x]) \<and>
            foldl scoreStep \<lparr>move = m0, score = - 1\<rparr> (xs @ [x]) =
              \<lparr>move = (xs @ [x]) ! length xs, score = points ((xs @ [x]) ! length xs)\<rparr> \<and>
            (\<forall>j<length (xs @ [x]). points ((xs @ [x]) ! j) \<le> points ((xs @ [x]) ! length xs)) \<and>
            (\<forall>j<length xs. points ((xs @ [x]) ! j) < points ((xs @ [x]) ! length xs))"
        using res lt by (auto simp: nth_append less_Suc_eq dest: less_imp_le)
      then show ?thesis by blast
    next
      case False
      have res: "foldl scoreStep \<lparr>move = m0, score = - 1\<rparr> (xs @ [x]) = \<lparr>move = xs ! i, score = points (xs ! i)\<rparr>"
        using False r by (simp add: scoreStep_def)
      have "i < length (xs @ [x]) \<and>
            foldl scoreStep \<lparr>move = m0, score = - 1\<rparr> (xs @ [x]) =
              \<lparr>move = (xs @ [x]) ! i, score = points ((xs @ [x]) ! i)\<rparr> \<and>
            (\<forall>j<length (xs @ [x]). points ((xs @ [x]) ! j) \<le> points ((xs @ [x]) ! i)) \<and>
            (\<forall>j<i. points ((xs @ [x]) ! j) < points ((xs @ [x]) ! i))"
        using res i mx fs False by (auto simp: nth_append less_Suc_eq)
      then show ?thesis by blast
    qed
  qed
qed

text \<open>The capture fold ends on the last capture of the list, or on its seed if there is none.\<close>

lemma captureFold_last:
  "foldl captureStep b ms = (if filter isCapture ms = [] then b else last (filter isCapture ms))"
  by (induction ms rule: rev_induct) (auto simp: captureStep_def)

section \<open>Move selection\<close>

text \<open>
  C1. On a non-empty list of legal moves, \<^verbatim>\<open>suggestMove\<close> stores the very move that the
  Grand-Master tier of \<^verbatim>\<open>makeBotMove\<close> picks from the same list, and that the bot then
  plays: the two folds have the same scoring, the same strict comparison and the same
  seed.
\<close>

theorem suggestMove_matches_grandMaster:
  assumes "moves \<noteq> []"
    and "moves_of E (position (game s)) = moves"
    and "moves_of E (position g) = moves"
  shows "\<exists>m. suggestedMove (suggestMove E s) = Some m \<and>
             botMove 3 moves u = Some m \<and>
             makeBotMove E u g 3 t =
               t\<lparr>game := Chess (fen (chess_play E g m)),
                 moveHistory := updateMoveHistory m ''bot'' (moveHistory t)\<rparr>"
proof -
  let ?m = "move (foldl scoreStep \<lparr>move = moves ! 0, score = - 1\<rparr> moves)"
  have b: "botMove 3 moves u = Some ?m"
    using assms(1) by (rule botMove_grandMaster)
  have "suggestion moves = Some ?m"
    using assms(1) by (rule suggestion_fold)
  then have "suggestedMove (suggestMove E s) = Some ?m"
    using assms(2) by (simp add: suggestMove_def)
  moreover have "makeBotMove E u g 3 t =
      t\<lparr>game := Chess (fen (chess_play E g ?m)),
        moveHistory := updateMoveHistory ?m ''bot'' (moveHistory t)\<rparr>"
    using b assms(3) by (simp add: makeBotMove_def)
  ultimately show ?thesis using b by blast
qed

theorem suggestMove_matches_grandMaster_witness:
  "moves_of openingBook (position (game
      (fireTimer openingBook (2 / 3) (makeMove openingBook ''e2'' ''e4'' (initialState openingBook))))) =
     [mv ''b1'' ''c3'' ''n'' ''Nc3'', mv ''e4'' ''d5'' ''c'' ''exd5'', mv ''e4'' ''e5'' ''n'' ''e5''] \<and>
   suggestedMove (suggestMove openingBook
      (fireTimer openingBook (2 / 3) (makeMove openingBook ''e2'' ''e4'' (initialState openingBook)))) =
     Some (mv ''e4'' ''d5'' ''c'' ''exd5'') \<and>
   botMove 3 [mv ''b1'' ''c3'' ''n'' ''Nc3'', mv ''e4'' ''d5'' ''c'' ''exd5'', mv ''e4'' ''e5'' ''n'' ''e5''] 0 =
     Some (mv ''e4'' ''d5'' ''c'' ''exd5'')"
proof -
  let ?s = "fireTimer openingBook (2 / 3) (makeMove openingBook ''e2'' ''e4'' (initialState openingBook))"
  let ?ms = "[mv ''b1'' ''c3'' ''n'' ''Nc3'', mv ''e4'' ''d5'' ''c'' ''exd5'', mv ''e4'' ''e5'' ''n'' ''e5'']"
  have h1: "?ms \<noteq> []" by simp
  have h2: "moves_of openingBook (position (game ?s)) = ?ms" by code_simp
  have b: "botMove 3 ?ms 0 = Some (mv ''e4'' ''d5'' ''c'' ''exd5'')" by code_simp
  from suggestMove_matches_grandMaster [OF h1 h2 h2, of 0 ?s] b
  have "suggestedMove (suggestMove openingBook ?s) = Some (mv ''e4'' ''d5'' ''c'' ''exd5'')"
    by auto
  with h2 b show ?thesis by blast
qed

text \<open>
  C2. On a non-empty list the Grand-Master tier returns a move of the list with the
  highest points (2 for a capture or en passant, else 1 for a promotion or the flag
  \<open>k\<close>, else 0) and, among the moves of highest points, the earliest: every move before
  it has strictly fewer points. The fold starts from the first move of the list with the
  score \<open>-1\<close> and replaces its choice only on a strictly greater score.
\<close>

theorem grandMaster_first_best:
  assumes "moves \<noteq> []"
  shows "botMove 3 moves u = Some (move (foldl scoreStep \<lparr>move = moves ! 0, score = - 1\<rparr> moves)) \<and>
         (\<exists>i<length moves.
             botMove 3 moves u = Some (moves ! i) \<and>
             (\<forall>j<length moves. points (moves ! j) \<le> points (moves ! i)) \<and>
             (\<forall>j<i. points (moves ! j) < points (moves ! i)))"
proof -
  have b: "botMove 3 moves u = Some (move (foldl scoreStep \<lparr>move = moves ! 0, score = - 1\<rparr> moves))"
    using assms by (rule botMove_grandMaster)
  from scoreFold_first_best [OF assms, of "moves ! 0"] obtain i where "i < length moves"
    and "foldl scoreStep \<lparr>move = moves ! 0, score = - 1\<rparr> moves =
           \<lparr>move = moves ! i, score = points (moves ! i)\<rparr>"
    and "\<forall>j<length moves. points (moves ! j) \<le> points (moves ! i)"
    and "\<forall>j<i. points (moves ! j) < points (moves ! i)"
    by blast
  then have "\<exists>i<length moves.
             botMove 3 moves u = Some (moves ! i) \<and>
             (\<forall>j<length moves. points (moves ! j) \<le> points (moves ! i)) \<and>
             (\<forall>j<i. points (moves ! j) < points (moves ! i))"
    using b by auto
  with b show ?thesis by blast
qed

theorem grandMaster_first_best_witness:
  "sampleMoves \<noteq> [] \<and>
   botMove 3 sampleMoves 0 = Some (mv ''e4'' ''d5'' ''c'' ''exd5'') \<and>
   (\<exists>i<length sampleMoves.
       botMove 3 sampleMoves 0 = Some (sampleMoves ! i) \<and>
       (\<forall>j<length sampleMoves. points (sampleMoves ! j) \<le> points (sampleMoves ! i)) \<and>
       (\<forall>j<i. points (sampleMoves ! j) < points (sampleMoves ! i)))"
proof -
  have h: "sampleMoves \<noteq> []" by (simp add: sampleMoves_def)
  have e: "botMove 3 sampleMoves 0 = Some (mv ''e4'' ''d5'' ''c'' ''exd5'')" by code_simp
  from grandMaster_first_best [OF h, of 0] h e show ?thesis by blast
qed

text \<open>
  C3. If some legal move is a capture or en passant, the Advanced tier returns a move of
  the list that is a capture or en passant, for every random draw \<open>u\<close> of the seed.
\<close>

theorem advanced_returns_capture:
  assumes "\<exists>m\<in>set moves. isCapture m"
  shows "\<exists>m\<in>set moves. botMove 2 moves u = Some m \<and> isCapture m"
proof -
  from assms have ne: "moves \<noteq> []" by auto
  from assms have f: "filter isCapture moves \<noteq> []" by (simp add: filter_empty_conv)
  then have "last (filter isCapture moves) \<in> set (filter isCapture moves)"
    by (rule last_in_set)
  moreover have "botMove 2 moves u = Some (last (filter isCapture moves))"
    using f by (simp add: botMove_advanced [OF ne] captureFold_last)
  ultimately show ?thesis by auto
qed

theorem advanced_returns_capture_witness:
  "(\<exists>m\<in>set sampleMoves. isCapture m) \<and>
   (\<exists>m\<in>set sampleMoves. botMove 2 sampleMoves (1 / 5) = Some m \<and> isCapture m)"
proof -
  have h: "\<exists>m\<in>set sampleMoves. isCapture m" by code_simp
  from advanced_returns_capture [OF h, of "1 / 5"] h show ?thesis by blast
qed

text \<open>
  C4, as the claim states it: among several captures the Advanced tier would keep the
  first. It does not: of the two captures \<open>exd5\<close> and \<open>Nxd5\<close> it returns the second.
\<close>

theorem advanced_first_capture_counterexample:
  "find isCapture sampleMoves = Some (mv ''e4'' ''d5'' ''c'' ''exd5'') \<and>
   botMove 2 sampleMoves 0 = Some (mv ''c3'' ''d5'' ''c'' ''Nxd5'') \<and>
   botMove 2 sampleMoves 0 \<noteq> find isCapture sampleMoves"
  by code_simp

text \<open>
  C4, amended. On a list with two or more captures (or en-passant moves) the Advanced
  tier returns the last of them in iteration order: the fold compares nothing, each
  capture replaces the running choice.
\<close>

theorem advanced_selects_last_capture:
  assumes "2 \<le> length (filter isCapture moves)"
  shows "botMove 2 moves u = Some (last (filter isCapture moves))"
proof -
  from assms have f: "filter isCapture moves \<noteq> []" by auto
  then have ne: "moves \<noteq> []" by auto
  show ?thesis using f by (simp add: botMove_advanced [OF ne] captureFold_last)
qed

theorem advanced_selects_last_capture_witness:
  "2 \<le> length (filter isCapture sampleMoves) \<and>
   botMove 2 sampleMoves 0 = Some (last (filter isCapture sampleMoves)) \<and>
   last (filter isCapture sampleMoves) = mv ''c3'' ''d5'' ''c'' ''Nxd5''"
proof -
  have h: "2 \<le> length (filter isCapture sampleMoves)" by code_simp
  have l: "last (filter isCapture sampleMoves) = mv ''c3'' ''d5'' ''c'' ''Nxd5''" by code_simp
  from advanced_selects_last_capture [OF h, of 0] h l show ?thesis by blast
qed

section \<open>A rejected move\<close>

text \<open>With a square selected, a click on another square is an attempt to move there.\<close>

lemma handleSquareClick_attempt:
  "selectedSquare s = Some fromSq \<Longrightarrow> fromSq \<noteq> [] \<Longrightarrow> fromSq \<noteq> sq \<Longrightarrow>
   handleSquareClick E sq s = makeMove E fromSq sq s"
  by (simp add: handleSquareClick_def truthy_def)

text \<open>
  C5. When the engine rejects the move from \<open>fromSq\<close> to \<open>toSq\<close>, by throwing or by a
  falsy result, \<^verbatim>\<open>makeMove\<close> returns normally with the message \<open>Invalid move\<close> and no
  selection; the game instance, the move history and the pending bot replies are as
  before, and nothing else in the state changes.
\<close>

theorem makeMove_rejected:
  assumes "resolve E (position (game s)) fromSq toSq = Throws \<or>
           resolve E (position (game s)) fromSq toSq = Falsy"
  shows "errorMessage (makeMove E fromSq toSq s) = ''Invalid move'' \<and>
         selectedSquare (makeMove E fromSq toSq s) = None \<and>
         game (makeMove E fromSq toSq s) = game s \<and>
         moveHistory (makeMove E fromSq toSq s) = moveHistory s \<and>
         timers (makeMove E fromSq toSq s) = timers s \<and>
         makeMove E fromSq toSq s = s\<lparr>errorMessage := ''Invalid move'', selectedSquare := None\<rparr>"
  using assms by (auto simp: makeMove_def chess_move_def)

theorem makeMove_rejected_witness:
  "(resolve openingBook (position (game ((initialState openingBook)\<lparr>selectedSquare := Some ''e2''\<rparr>)))
      ''e2'' ''e5'' = Throws \<or>
    resolve openingBook (position (game ((initialState openingBook)\<lparr>selectedSquare := Some ''e2''\<rparr>)))
      ''e2'' ''e5'' = Falsy) \<and>
   makeMove openingBook ''e2'' ''e5'' ((initialState openingBook)\<lparr>selectedSquare := Some ''e2''\<rparr>) =
     (initialState openingBook)\<lparr>errorMessage := ''Invalid move''\<rparr>"
proof -
  let ?s = "(initialState openingBook)\<lparr>selectedSquare := Some ''e2''\<rparr>"
  have h: "resolve openingBook (position (game ?s)) ''e2'' ''e5'' = Throws \<or>
           resolve openingBook (position (game ?s)) ''e2'' ''e5'' = Falsy"
    by code_simp
  have "makeMove openingBook ''e2'' ''e5'' ?s =
          ?s\<lparr>errorMessage := ''Invalid move'', selectedSquare := None\<rparr>"
    using makeMove_rejected [OF h] by blast
  moreover have "?s\<lparr>errorMessage := ''Invalid move'', selectedSquare := None\<rparr> =
                 (initialState openingBook)\<lparr>errorMessage := ''Invalid move''\<rparr>"
    by (simp add: initialState_def)
  ultimately show ?thesis using h by simp
qed

section \<open>The probability bar\<close>

lemma zero_material_NaN:
  "boardScores (board_of E (position (game s))) = (0, 0) \<Longrightarrow>
   winProbability (calculateWinProbability E s) = \<lparr>white = NaN, black = NaN\<rparr>"
  by (simp add: calculateWinProbability_def js_div_def)

text \<open>
  C6. The claim asks for a defined probability when neither side has material. With the
  two bare kings both scores are 0, \<^verbatim>\<open>whiteScore / totalScore\<close> is \<open>0 / 0\<close>, and
  \<^verbatim>\<open>calculateWinProbability\<close> stores \<open>NaN\<close> for White and for Black, in place of the
  50 and 50 the state starts with.
\<close>

theorem bare_kings_probability_NaN:
  "boardScores (board_of bareKings (position (game (initialState bareKings)))) = (0, 0) \<and>
   winProbability (initialState bareKings) = \<lparr>white = Num 50, black = Num 50\<rparr> \<and>
   winProbability (calculateWinProbability bareKings (initialState bareKings)) =
     \<lparr>white = NaN, black = NaN\<rparr>"
  by code_simp

section \<open>Undo\<close>

lemma undoMove_nothing_applied: "applied (game s) = [] \<Longrightarrow> undoMove s = s"
  by (simp add: undoMove_def chess_undo_def)

lemma makeMove_applied:
  "applied (game s) = [] \<Longrightarrow> applied (game (makeMove E fromSq toSq s)) = []"
  by (simp add: makeMove_def chess_move_def Chess_def split: move_result.splits)

lemma makeBotMove_applied:
  "applied (game s) = [] \<Longrightarrow> applied (game (makeBotMove E u g d s)) = []"
  by (simp add: makeBotMove_def Chess_def split: option.splits)

text \<open>
  The instance held in the state never has a move to undo: every handler that applies a
  move replaces the instance by one built from the position string.
\<close>

lemma reachable_nothing_applied: "reachable E s \<Longrightarrow> applied (game s) = []"
proof (induction rule: reachable.induct)
  case start
  show ?case by (simp add: initialState_def Chess_def)
next
  case (click s sq)
  then show ?case by (simp add: handleSquareClick_def Let_def makeMove_applied)
next
  case (timer s u)
  then show ?case
    by (simp add: fireTimer_def makeBotMove_applied split: list.splits prod.splits)
next
  case (reset s)
  show ?case by (simp add: resetGame_def Chess_def)
next
  case (undo s)
  then show ?case by (simp add: undoMove_nothing_applied)
next
  case (hint s)
  then show ?case by (simp add: suggestMove_def split: option.splits)
next
  case (bar s)
  then show ?case by (simp add: calculateWinProbability_def Let_def split: prod.splits)
next
  case (status s msg)
  then show ?case by simp
next
  case (level s i)
  then show ?case by (simp add: setBotDifficulty_def)
next
  case (dark s)
  then show ?case by (simp add: toggleDarkMode_def)
qed

lemma reachable_undoMove: "reachable E s \<Longrightarrow> undoMove s = s"
  by (simp add: reachable_nothing_applied undoMove_nothing_applied)

text \<open>
  What \<^verbatim>\<open>undoMove\<close> does on an instance that does hold applied moves: it pops two of
  them (one, if there is only one) and drops the last history row.
\<close>

lemma undoMove_two_applied:
  "applied (game s) = (p1, m1) # (p2, m2) # rest \<Longrightarrow>
   undoMove s = s\<lparr>game := Chess p2, moveHistory := butlast (moveHistory s)\<rparr>"
  by (simp add: undoMove_def chess_undo_def fen_def)

lemma undoMove_one_applied:
  "applied (game s) = [(p1, m1)] \<Longrightarrow>
   undoMove s = s\<lparr>game := Chess p1, moveHistory := butlast (moveHistory s)\<rparr>"
  by (simp add: undoMove_def chess_undo_def fen_def)

text \<open>
  C7. The claim has \<^verbatim>\<open>undoMove\<close> revert two half-moves and remove a history row once a
  move has been applied. After \<open>1. e4\<close> and the bot's reply \<open>e5\<close> the state holds an
  instance rebuilt from the position string, \<^verbatim>\<open>game.undo()\<close> finds nothing to undo, and
  \<^verbatim>\<open>undoMove\<close> leaves the position after \<open>1. e4 e5\<close> and the row \<open>1. e4 e5\<close> in
  place.
\<close>

theorem undoMove_after_reply_unchanged:
  "map san (position (game replyRun)) = [''e4'', ''e5''] \<and>
   moveHistory replyRun = [''1. e4 e5''] \<and>
   applied (game replyRun) = [] \<and>
   undoMove replyRun = replyRun"
  by code_simp

section \<open>Move history\<close>

lemma player_row:
  "updateMoveHistory m ''player'' h = h @ [decimal (length h div 2 + 1) @ ''. '' @ san m]"
  by (simp add: updateMoveHistory_def)

lemma bot_row:
  "h \<noteq> [] \<Longrightarrow> updateMoveHistory m ''bot'' h = butlast h @ [last h @ '' '' @ san m]"
  by (simp add: updateMoveHistory_def)

text \<open>
  A human move adds a row and the bot's reply adds none, so the \<open>k\<close>th human move finds
  \<open>k - 1\<close> rows and its row gets the number \<open>(k - 1) div 2 + 1\<close>.
\<close>

lemma turn_length:
  "length (updateMoveHistory b ''bot'' (updateMoveHistory a ''player'' h)) = Suc (length h)"
  by (simp add: updateMoveHistory_def)

lemma length_playTurns: "length (playTurns ts) = length ts"
  unfolding playTurns_def
  by (induction ts rule: rev_induct) (simp_all add: turn_length split: prod.splits)

lemma next_row_label:
  "updateMoveHistory m ''player'' (playTurns ts) =
     playTurns ts @ [decimal (length ts div 2 + 1) @ ''. '' @ san m]"
  by (simp add: player_row length_playTurns)

text \<open>
  C8. The claim labels the row of the \<open>k\<close>th human move with \<open>k\<close>. The second human
  move finds one row in the history, \<^verbatim>\<open>Math.floor(1 / 2) + 1\<close> is 1, and its row starts
  with \<open>1.\<close> again: after \<open>1. f3 e5\<close> the rows are \<open>1. f3 e5\<close> and \<open>1. g4\<close>. The
  bot's reply does go into the row of the human move before it.
\<close>

theorem second_row_numbered_one:
  "updateMoveHistory (mv ''g2'' ''g4'' ''b'' ''g4'') ''player'' [''1. f3 e5''] =
     [''1. f3 e5'', ''1. g4''] \<and>
   updateMoveHistory (mv ''d8'' ''h4'' ''n'' ''Qh4#'') ''bot'' [''1. f3 e5'', ''1. g4''] =
     [''1. f3 e5'', ''1. g4 Qh4#''] \<and>
   moveHistory mateRun = [''1. f3 e5'', ''1. g4 Qh4#'']"
  by code_simp

section \<open>The suggested move\<close>

lemma suggestMove_no_moves:
  "moves_of E (position (game s)) = [] \<Longrightarrow> suggestMove E s = s"
  by (simp add: suggestMove_def suggestion_def)

text \<open>
  C9. The claim has \<^verbatim>\<open>suggestMove\<close> yield no suggestion where there is no legal move.
  After \<open>1. f3 e5 2. g4\<close> the suggestion is \<open>Qh4#\<close>; the bot plays it, White has no
  legal move, and \<^verbatim>\<open>suggestMove\<close> leaves \<open>Qh4#\<close>, a move of the position before, as
  the suggested move.
\<close>

theorem stale_suggestion_after_mate:
  "map san (position (game mateRun)) = [''f3'', ''e5'', ''g4'', ''Qh4#''] \<and>
   moves_of openingBook (position (game mateRun)) = [] \<and>
   suggestedMove (suggestMove openingBook mateRun) = Some (mv ''d8'' ''h4'' ''n'' ''Qh4#'')"
  by code_simp

section \<open>Reset\<close>

text \<open>
  C10. \<^verbatim>\<open>resetGame\<close> puts a new instance on the starting position into the state and
  clears the selection, the move history, the game status and the error message; the
  difficulty level and the dark-mode setting stay as they are, and so do the suggested
  move, the probability bar, the point difference and the pending timers.
\<close>

theorem resetGame_frame:
  "game (resetGame E s) = Chess (initial E) \<and>
   position (game (resetGame E s)) = initial E \<and>
   selectedSquare (resetGame E s) = None \<and>
   moveHistory (resetGame E s) = [] \<and>
   gameStatus (resetGame E s) = [] \<and>
   errorMessage (resetGame E s) = [] \<and>
   botDifficulty (resetGame E s) = botDifficulty s \<and>
   darkMode (resetGame E s) = darkMode s \<and>
   suggestedMove (resetGame E s) = suggestedMove s \<and>
   winProbability (resetGame E s) = winProbability s \<and>
   pointDifference (resetGame E s) = pointDifference s \<and>
   timers (resetGame E s) = timers s"
  by (simp add: resetGame_def Chess_def)

end
